theory Spec2Isabelle
  imports Main
begin

section \<open>Errors\<close>

text \<open>
  A Go \<^verbatim>\<open>error\<close> value is nil or a value of some error type. The type switch of
  \<^verbatim>\<open>GetNode\<close> looks at the dynamic type of the error, so the model keeps one constructor
  per type that the file can see:
  \<^item> \<open>ErrDefault404\<close>: a value of \<^verbatim>\<open>gophercloud.ErrDefault404\<close>, with its message;
  \<^item> \<open>ErrOther\<close>: an error of any other type handed back by the remote client;
  \<^item> \<open>ErrorString\<close>: what \<^verbatim>\<open>fmt.Errorf\<close> builds from a format without \<^verbatim>\<open>%w\<close>;
  \<^item> \<open>WrapError\<close>: what \<^verbatim>\<open>fmt.Errorf\<close> builds from a format with \<^verbatim>\<open>%w\<close>: the formatted
    message and the wrapped error.
  A nil error is \<open>None\<close> of \<open>error option\<close>.
\<close>

datatype error =
    ErrDefault404 string
  | ErrOther string
  | ErrorString string
  | WrapError string error

text \<open>The method \<^verbatim>\<open>Error()\<close>: the message of an error.\<close>

fun Error :: "error \<Rightarrow> string" where
  "Error (ErrDefault404 m) = m"
| "Error (ErrOther m) = m"
| "Error (ErrorString m) = m"
| "Error (WrapError m e) = m"

section \<open>The remote service\<close>

text \<open>
  A \<^verbatim>\<open>logr.Logger\<close> is modelled by the key/value pairs attached to it; the lines it
  prints are not part of the model.
\<close>

type_synonym Logger = "(string \<times> string) list"

definition WithValues :: "Logger \<Rightarrow> string \<Rightarrow> string \<Rightarrow> Logger" where
  "WithValues logger k v = logger @ [(k, v)]"

text \<open>
  The payload types of the client library, with the fields this file reads or writes.
\<close>

record nodes_Node =
  UUID :: string
  Name :: string
  ProvisionState :: string

record Port =
  port_NodeUUID :: string
  port_Address :: string
  port_PXEEnabled :: bool

record ListOpts =
  lo_Fields :: "string list"
  lo_Address :: string
  lo_NodeUUID :: string

record CreateOpts =
  co_NodeUUID :: string
  co_Address :: string
  co_PXEEnabled :: "bool option"

record DriverValidation =
  Result :: bool
  Reason :: string

record NodeValidation =
  Boot :: DriverValidation
  Deploy :: DriverValidation

text \<open>
  Modelled from the spec: the paging functions of the client library (\<^verbatim>\<open>AllPages\<close>,
  \<^verbatim>\<open>ports.ExtractPorts\<close>, \<^verbatim>\<open>IsEmpty\<close>) are not in the source file. The spec gives the
  port listing as "an ordered sequence of Port, or an error", paged to exhaustion. A page
  is either the ports it holds or a body that cannot be decoded; both extraction and the
  emptiness check decode the body.
\<close>

datatype Page = PortPage "Port list" | BadPage error

fun ExtractPorts :: "Page \<Rightarrow> error + Port list" where
  "ExtractPorts (PortPage ps) = Inr ps"
| "ExtractPorts (BadPage e) = Inl e"

fun IsEmpty :: "Page \<Rightarrow> error + bool" where
  "IsEmpty (PortPage ps) = Inr (ps = [])"
| "IsEmpty (BadPage e) = Inl e"

text \<open>
  The remote service as the file uses it: four requests, each answered with an error or a
  payload. The answers are functions of the request: the state of the remote service does
  not change while one operation of this file runs. Every request made is appended to a
  trace, which the operations take and return, so that "without contacting the remote
  service" and "in this order" are statements about the trace.
\<close>

datatype call =
    NodesGet string
  | PortsList ListOpts
  | PortsCreate CreateOpts
  | NodesValidate string

record ServiceClient =
  nodes_Get :: "string \<Rightarrow> error + nodes_Node"
  ports_List_AllPages :: "ListOpts \<Rightarrow> error + Page"
  ports_Create :: "CreateOpts \<Rightarrow> error + Port"
  nodes_Validate :: "string \<Rightarrow> error + NodeValidation"

section \<open>Node\<close>

text \<open>
  \<^verbatim>\<open>type Node struct { nodes.Node; log; client; updater }\<close>. The embedded payload is the
  field \<open>Node\<close>. The type of the updater and \<^verbatim>\<open>updateOptsBuilder\<close> are declared elsewhere
  in the package: the updater's type is a parameter \<open>'u\<close>, and the builder is a parameter
  of the functions that construct a node.
\<close>

record 'u Node =
  Node :: nodes_Node
  log :: Logger
  client :: ServiceClient
  updater :: 'u

type_synonym 'u node_result = "('u Node option \<times> error option) \<times> call list"

text \<open>\<^verbatim>\<open>GetNode\<close> returns a node by its ID or nil.\<close>

definition GetNode ::
  "(Logger \<Rightarrow> 'u) \<Rightarrow> ServiceClient \<Rightarrow> Logger \<Rightarrow> call list \<Rightarrow> string \<Rightarrow> 'u node_result" where
  "GetNode updateOptsBuilder clnt logger tr nodeID =
     (if nodeID = [] then ((None, None), tr)
      else
        (case nodes_Get clnt nodeID of
           Inr payload \<Rightarrow>
             ((Some \<lparr>Node = payload,
                     log = WithValues logger ''NodeID'' nodeID,
                     client = clnt,
                     updater = updateOptsBuilder logger\<rparr>, None),
              tr @ [NodesGet nodeID])
         | Inl err \<Rightarrow>
             (case err of
                ErrDefault404 m \<Rightarrow> ((None, None), tr @ [NodesGet nodeID])
              | _ \<Rightarrow>
                ((None,
                  Some (WrapError
                          (''failed to find node by ID '' @ nodeID @ '': '' @ Error err) err)),
                 tr @ [NodesGet nodeID]))))"

text \<open>
  \<^verbatim>\<open>AssertNode\<close>: "returns a node by its ID and fails if it is not found. The returned
  Node is never nil." The condition is the one of the source: \<^verbatim>\<open>node == nil && err != nil\<close>.
\<close>

definition AssertNode ::
  "(Logger \<Rightarrow> 'u) \<Rightarrow> ServiceClient \<Rightarrow> Logger \<Rightarrow> call list \<Rightarrow> string \<Rightarrow> 'u node_result" where
  "AssertNode updateOptsBuilder clnt logger tr nodeID =
     (case GetNode updateOptsBuilder clnt logger tr nodeID of
        ((node, err), tr') \<Rightarrow>
          (if node = None \<and> err \<noteq> None
           then ((node,
                  Some (ErrorString
                          (''failed to find node by ID '' @ nodeID @ '': not found''))), tr')
           else ((node, err), tr')))"

text \<open>
  \<^verbatim>\<open>FindNodeByNames\<close>: the loop over the candidate names. An error of a lookup ends the
  loop with the error wrapped; a node ends it with the node; otherwise the next name is
  tried.
\<close>

fun FindNodeByNames ::
  "(Logger \<Rightarrow> 'u) \<Rightarrow> ServiceClient \<Rightarrow> Logger \<Rightarrow> call list \<Rightarrow> string list \<Rightarrow> 'u node_result" where
  "FindNodeByNames updateOptsBuilder clnt logger tr [] = ((None, None), tr)"
| "FindNodeByNames updateOptsBuilder clnt logger tr (nodeName # names) =
     (case GetNode updateOptsBuilder clnt logger tr nodeName of
        ((node, err), tr') \<Rightarrow>
          (case err of
             Some e \<Rightarrow>
               ((None,
                 Some (WrapError
                         (''failed to find node by name '' @ nodeName @ '': '' @ Error e) e)),
                tr')
           | None \<Rightarrow>
               (case node of
                  Some n \<Rightarrow> ((Some n, None), tr')
                | None \<Rightarrow> FindNodeByNames updateOptsBuilder clnt logger tr' names)))"

text \<open>
  \<^verbatim>\<open>findNodeIDByMAC\<close> returns the node ID matching the MAC address or an empty string.
\<close>

definition findNodeIDByMAC ::
  "ServiceClient \<Rightarrow> Logger \<Rightarrow> call list \<Rightarrow> string \<Rightarrow> (string \<times> error option) \<times> call list" where
  "findNodeIDByMAC clnt logger tr macAddress =
     (let opts = \<lparr>lo_Fields = [''node_uuid''], lo_Address = macAddress, lo_NodeUUID = ''''\<rparr>;
          tr' = tr @ [PortsList opts]
      in case ports_List_AllPages clnt opts of
           Inl err \<Rightarrow> (('''', Some err), tr')
         | Inr pages \<Rightarrow>
             (case ExtractPorts pages of
                Inl err \<Rightarrow> (('''', Some err), tr')
              | Inr ports \<Rightarrow>
                  (case ports of
                     [] \<Rightarrow> (('''', None), tr')
                   | p # ps \<Rightarrow> ((port_NodeUUID p, None), tr'))))"

text \<open>\<^verbatim>\<open>FindNodeByMAC\<close> returns a node by one of its MAC addresses.\<close>

definition FindNodeByMAC ::
  "(Logger \<Rightarrow> 'u) \<Rightarrow> ServiceClient \<Rightarrow> Logger \<Rightarrow> call list \<Rightarrow> string \<Rightarrow> 'u node_result" where
  "FindNodeByMAC updateOptsBuilder clnt logger tr macAddress =
     (case findNodeIDByMAC clnt logger tr macAddress of
        ((nodeID, err), tr') \<Rightarrow>
          (if nodeID = [] \<or> err \<noteq> None then ((None, err), tr')
           else GetNode updateOptsBuilder clnt logger tr' nodeID))"

text \<open>\<^verbatim>\<open>CreateBootPort\<close> creates a port with PXE booting enabled.\<close>

definition CreateBootPort :: "'u Node \<Rightarrow> call list \<Rightarrow> string \<Rightarrow> error option \<times> call list" where
  "CreateBootPort node tr macAddress =
     (let opts = \<lparr>co_NodeUUID = UUID (Node node), co_Address = macAddress,
                  co_PXEEnabled = Some True\<rparr>
      in case ports_Create (client node) opts of
           Inl err \<Rightarrow>
             (Some (WrapError
                      (''failed to create ironic port '' @ macAddress @ '' for node '' @
                       UUID (Node node) @ '': '' @ Error err) err),
              tr @ [PortsCreate opts])
         | Inr p \<Rightarrow> (None, tr @ [PortsCreate opts]))"

text \<open>
  \<^verbatim>\<open>Validate\<close>: the named results \<^verbatim>\<open>failures\<close> and \<^verbatim>\<open>err\<close> start as nil; the nil
  slice is the empty list.
\<close>

definition Validate :: "'u Node \<Rightarrow> call list \<Rightarrow> (string list \<times> error option) \<times> call list" where
  "Validate node tr =
     (case nodes_Validate (client node) (UUID (Node node)) of
        Inl err \<Rightarrow> (([], Some err), tr @ [NodesValidate (UUID (Node node))])
      | Inr validateResult \<Rightarrow>
          (let failures = [];
               failures = (if \<not> Result (Boot validateResult)
                           then failures @ [Reason (Boot validateResult)] else failures);
               failures = (if \<not> Result (Deploy validateResult)
                           then failures @ [Reason (Deploy validateResult)] else failures)
           in ((failures, None), tr @ [NodesValidate (UUID (Node node))])))"

text \<open>\<^verbatim>\<open>HasPorts\<close> checks whether the node has any ports.\<close>

definition HasPorts :: "'u Node \<Rightarrow> call list \<Rightarrow> (bool \<times> error option) \<times> call list" where
  "HasPorts node tr =
     (let opts = \<lparr>lo_Fields = [''node_uuid''], lo_Address = '''',
                  lo_NodeUUID = UUID (Node node)\<rparr>;
          tr' = tr @ [PortsList opts]
      in case ports_List_AllPages (client node) opts of
           Inl err \<Rightarrow>
             ((False,
               Some (WrapError (''failed to page over list of ports: '' @ Error err) err)),
              tr')
         | Inr allPages \<Rightarrow>
             (case IsEmpty allPages of
                Inl err \<Rightarrow>
                  ((False,
                    Some (WrapError (''failed to check port list status: '' @ Error err) err)),
                   tr')
              | Inr empty' \<Rightarrow> (if empty' then ((False, None), tr') else ((True, None), tr'))))"

section \<open>The admission hooks of the event subscription\<close>

text \<open>
  The type \<^verbatim>\<open>BMCEventSubscription\<close> and \<^verbatim>\<open>runtime.Object\<close> are declared elsewhere; the two
  hooks below read nothing of them but the name they log, so both are type parameters.
\<close>

definition ValidateUpdate :: "'s \<Rightarrow> 'o \<Rightarrow> error option" where
  "ValidateUpdate s old = Some (ErrorString ''subscriptions cannot be updated, please recreate it'')"

definition ValidateDelete :: "'s \<Rightarrow> error option" where
  "ValidateDelete s = None"

section \<open>A concrete remote service\<close>

text \<open>
  One remote service to evaluate the operations on. It knows one node, \<open>uuid-b\<close> named
  \<open>b\<close>, with one port; a second port record, \<open>52:54:00:00:00:0d\<close>, points at a node
  \<open>uuid-d\<close> that is gone, and a third, \<open>52:54:00:00:00:0f\<close>, at the node \<open>boom\<close>.
  Requests about \<open>boom\<close> fail with a server error, the port
  listing for \<open>garbled\<close> cannot be decoded, and validation answers only for \<open>uuid-b\<close>.
\<close>

definition node_b :: nodes_Node where
  "node_b = \<lparr>UUID = ''uuid-b'', Name = ''b'', ProvisionState = ''available''\<rparr>"

definition example_client :: ServiceClient where
  "example_client =
     \<lparr>nodes_Get = (\<lambda>nodeID.
         if nodeID = ''b'' \<or> nodeID = ''uuid-b'' then Inr node_b
         else if nodeID = ''boom'' then Inl (ErrOther ''Internal Server Error'')
         else Inl (ErrDefault404 ''Resource not found'')),
      ports_List_AllPages = (\<lambda>opts.
         if lo_Address opts = ''52:54:00:00:00:0b'' \<or> lo_NodeUUID opts = ''uuid-b''
         then Inr (PortPage [\<lparr>port_NodeUUID = ''uuid-b'', port_Address = ''52:54:00:00:00:0b'',
                               port_PXEEnabled = True\<rparr>])
         else if lo_Address opts = ''52:54:00:00:00:0d''
         then Inr (PortPage [\<lparr>port_NodeUUID = ''uuid-d'', port_Address = ''52:54:00:00:00:0d'',
                               port_PXEEnabled = True\<rparr>])
         else if lo_Address opts = ''52:54:00:00:00:0f''
         then Inr (PortPage [\<lparr>port_NodeUUID = ''boom'', port_Address = ''52:54:00:00:00:0f'',
                               port_PXEEnabled = True\<rparr>])
         else if lo_Address opts = ''boom'' \<or> lo_NodeUUID opts = ''boom''
         then Inl (ErrOther ''Internal Server Error'')
         else if lo_Address opts = ''garbled'' \<or> lo_NodeUUID opts = ''garbled''
         then Inr (BadPage (ErrOther ''unexpected end of JSON input''))
         else Inr (PortPage [])),
      ports_Create = (\<lambda>opts. Inl (ErrOther ''Conflict'')),
      nodes_Validate = (\<lambda>nodeID.
         if nodeID = ''uuid-b''
         then Inr \<lparr>Boot = \<lparr>Result = False, Reason = ''no image''\<rparr>,
                   Deploy = \<lparr>Result = True, Reason = ''''\<rparr>\<rparr>
         else Inl (ErrOther ''Service Unavailable''))\<rparr>"

text \<open>A node handle on that service, for the identifier given.\<close>

definition example_node :: "string \<Rightarrow> unit Node" where
  "example_node uuid =
     \<lparr>Node = \<lparr>UUID = uuid, Name = '''', ProvisionState = ''available''\<rparr>,
      log = [(''NodeID'', uuid)], client = example_client, updater = ()\<rparr>"

section \<open>Properties of the node resolver\<close>

text \<open>
  C1. The claim: whenever \<open>GetNode\<close> returns an empty result, \<open>AssertNode\<close> returns a
  non-nil error, so that it never returns a nil node together with a nil error. The code
  does not do that: its test is \<^verbatim>\<open>node == nil && err != nil\<close>, which only replaces an
  error that is already there. At an identifier the remote service reports as not found,
  and at the empty identifier, \<open>AssertNode\<close> returns nil and nil.
\<close>

theorem AssertNode_returns_nil_nil:
  "AssertNode (\<lambda>l. ()) example_client [] [] ''uuid-d'' = ((None, None), [NodesGet ''uuid-d''])
   \<and> AssertNode (\<lambda>l. ()) example_client [] [] '''' = ((None, None), [])"
  by (simp add: AssertNode_def GetNode_def example_client_def)

text \<open>
  C2. \<open>GetNode\<close> returns nil and nil for the empty identifier, leaving the trace of remote
  calls as it was; otherwise it makes one lookup, and returns nil and nil when the answer
  is a 404 error, the error wrapped in a message that holds the identifier when the answer
  is any other error, and the node with a nil error when the answer is a payload.
\<close>

theorem GetNode_cases:
  "GetNode upd clnt logger tr [] = ((None, None), tr)
   \<and> (nodeID \<noteq> [] \<longrightarrow> nodes_Get clnt nodeID = Inl (ErrDefault404 m) \<longrightarrow>
        GetNode upd clnt logger tr nodeID = ((None, None), tr @ [NodesGet nodeID]))
   \<and> (nodeID \<noteq> [] \<longrightarrow> nodes_Get clnt nodeID = Inl e \<longrightarrow> (\<forall>m. e \<noteq> ErrDefault404 m) \<longrightarrow>
        GetNode upd clnt logger tr nodeID =
          ((None, Some (WrapError (''failed to find node by ID '' @ nodeID @ '': '' @ Error e) e)),
           tr @ [NodesGet nodeID]))
   \<and> (nodeID \<noteq> [] \<longrightarrow> nodes_Get clnt nodeID = Inr payload \<longrightarrow>
        GetNode upd clnt logger tr nodeID =
          ((Some \<lparr>Node = payload, log = logger @ [(''NodeID'', nodeID)], client = clnt,
                  updater = upd logger\<rparr>, None),
           tr @ [NodesGet nodeID]))"
  by (cases e) (simp_all add: GetNode_def WithValues_def)

theorem GetNode_cases_witness:
  "GetNode (\<lambda>l. ()) example_client [] [] [] = ((None, None), [])
   \<and> ''uuid-d'' \<noteq> []
   \<and> nodes_Get example_client ''uuid-d'' = Inl (ErrDefault404 ''Resource not found'')
   \<and> GetNode (\<lambda>l. ()) example_client [] [] ''uuid-d'' = ((None, None), [NodesGet ''uuid-d''])
   \<and> ''boom'' \<noteq> []
   \<and> nodes_Get example_client ''boom'' = Inl (ErrOther ''Internal Server Error'')
   \<and> (\<forall>m. ErrOther ''Internal Server Error'' \<noteq> ErrDefault404 m)
   \<and> GetNode (\<lambda>l. ()) example_client [] [] ''boom'' =
        ((None, Some (WrapError ''failed to find node by ID boom: Internal Server Error''
                        (ErrOther ''Internal Server Error''))), [NodesGet ''boom''])
   \<and> ''uuid-b'' \<noteq> []
   \<and> nodes_Get example_client ''uuid-b'' = Inr node_b
   \<and> GetNode (\<lambda>l. ()) example_client [] [] ''uuid-b'' =
        ((Some \<lparr>Node = node_b, log = [(''NodeID'', ''uuid-b'')], client = example_client,
                updater = ()\<rparr>, None), [NodesGet ''uuid-b''])"
proof -
  have h404: "nodes_Get example_client ''uuid-d'' = Inl (ErrDefault404 ''Resource not found'')"
    by (simp add: example_client_def)
  have h500: "nodes_Get example_client ''boom'' = Inl (ErrOther ''Internal Server Error'')"
    by (simp add: example_client_def)
  have hok: "nodes_Get example_client ''uuid-b'' = Inr node_b"
    by (simp add: example_client_def)
  show ?thesis
    using GetNode_cases [of "\<lambda>l. ()" example_client "[]" "[]" "''uuid-d''" "''Resource not found''"
                            "ErrOther ''Internal Server Error''" node_b]
          GetNode_cases [of "\<lambda>l. ()" example_client "[]" "[]" "''boom''" "[]"
                            "ErrOther ''Internal Server Error''" node_b]
          GetNode_cases [of "\<lambda>l. ()" example_client "[]" "[]" "''uuid-b''" "[]"
                            "ErrOther ''Internal Server Error''" node_b]
          h404 h500 hok
    by simp
qed

text \<open>
  The calls a lookup makes do not depend on the trace it starts from: it appends one
  \<open>NodesGet\<close> unless the identifier is empty.
\<close>

lemma GetNode_trace:
  "GetNode upd clnt logger tr n =
     (fst (GetNode upd clnt logger [] n),
      tr @ (if n = [] then [] else [NodesGet n]))"
  by (simp add: GetNode_def split: sum.splits error.splits)

text \<open>Names whose lookup finds nothing are passed over; each adds its lookup to the trace.\<close>

lemma FindNodeByNames_skip:
  "\<forall>m\<in>set pre. fst (GetNode upd clnt logger [] m) = (None, None) \<Longrightarrow>
   FindNodeByNames upd clnt logger tr (pre @ rest) =
   FindNodeByNames upd clnt logger (tr @ map NodesGet (filter (\<lambda>m. m \<noteq> []) pre)) rest"
proof (induction pre arbitrary: tr)
  case Nil
  show ?case by simp
next
  case (Cons a pre)
  have a: "fst (GetNode upd clnt logger [] a) = (None, None)"
    using Cons.prems by simp
  have step: "GetNode upd clnt logger tr a = ((None, None), tr @ (if a = [] then [] else [NodesGet a]))"
    using GetNode_trace [of upd clnt logger tr a] a by simp
  have rest: "\<forall>m\<in>set pre. fst (GetNode upd clnt logger [] m) = (None, None)"
    using Cons.prems by simp
  show ?case
    using Cons.IH [OF rest, of "tr @ (if a = [] then [] else [NodesGet a])"] step
    by simp
qed

text \<open>
  C3. \<open>FindNodeByNames\<close> looks the names up in the order of the list. When the lookups
  of the names \<open>pre\<close> find nothing and the lookup of the next name \<open>n\<close> finds a node, that
  node is returned and the trace holds the lookups of \<open>pre\<close> and \<open>n\<close>, in order, and of
  no later name. When no lookup finds anything, the result is nil and nil after the
  lookups of all names. When the lookups of \<open>pre\<close> find nothing and the lookup of \<open>n\<close>
  returns an error, that error is returned wrapped, and no later name is looked up. (A
  lookup of an empty name makes no remote call.) It is then instantiated at the names
  a, b, c, of which only b exists.
\<close>

theorem FindNodeByNames_first_match:
  "((\<forall>m\<in>set pre. fst (GetNode upd clnt logger [] m) = (None, None)) \<longrightarrow>
      fst (GetNode upd clnt logger [] n) = (Some node, None) \<longrightarrow>
      FindNodeByNames upd clnt logger tr (pre @ n # post) =
        ((Some node, None), tr @ map NodesGet (filter (\<lambda>m. m \<noteq> []) (pre @ [n]))))
   \<and> ((\<forall>m\<in>set names. fst (GetNode upd clnt logger [] m) = (None, None)) \<longrightarrow>
      FindNodeByNames upd clnt logger tr names =
        ((None, None), tr @ map NodesGet (filter (\<lambda>m. m \<noteq> []) names)))
   \<and> ((\<forall>m\<in>set pre. fst (GetNode upd clnt logger [] m) = (None, None)) \<longrightarrow>
      fst (GetNode upd clnt logger [] n) = (x, Some e) \<longrightarrow>
      FindNodeByNames upd clnt logger tr (pre @ n # post) =
        ((None, Some (WrapError (''failed to find node by name '' @ n @ '': '' @ Error e) e)),
         tr @ map NodesGet (filter (\<lambda>m. m \<noteq> []) (pre @ [n]))))"
proof (intro conjI impI)
  assume pre: "\<forall>m\<in>set pre. fst (GetNode upd clnt logger [] m) = (None, None)"
    and n: "fst (GetNode upd clnt logger [] n) = (Some node, None)"
  let ?tr = "tr @ map NodesGet (filter (\<lambda>m. m \<noteq> []) pre)"
  have "GetNode upd clnt logger ?tr n = ((Some node, None), ?tr @ (if n = [] then [] else [NodesGet n]))"
    using GetNode_trace [of upd clnt logger ?tr n] n by simp
  then show "FindNodeByNames upd clnt logger tr (pre @ n # post) =
        ((Some node, None), tr @ map NodesGet (filter (\<lambda>m. m \<noteq> []) (pre @ [n])))"
    using FindNodeByNames_skip [OF pre, of tr "n # post"] by simp
next
  assume "\<forall>m\<in>set names. fst (GetNode upd clnt logger [] m) = (None, None)"
  then show "FindNodeByNames upd clnt logger tr names =
        ((None, None), tr @ map NodesGet (filter (\<lambda>m. m \<noteq> []) names))"
    using FindNodeByNames_skip [of names upd clnt logger tr "[]"] by simp
next
  assume pre: "\<forall>m\<in>set pre. fst (GetNode upd clnt logger [] m) = (None, None)"
    and n: "fst (GetNode upd clnt logger [] n) = (x, Some e)"
  let ?tr = "tr @ map NodesGet (filter (\<lambda>m. m \<noteq> []) pre)"
  have "GetNode upd clnt logger ?tr n = ((x, Some e), ?tr @ (if n = [] then [] else [NodesGet n]))"
    using GetNode_trace [of upd clnt logger ?tr n] n by simp
  then show "FindNodeByNames upd clnt logger tr (pre @ n # post) =
        ((None, Some (WrapError (''failed to find node by name '' @ n @ '': '' @ Error e) e)),
         tr @ map NodesGet (filter (\<lambda>m. m \<noteq> []) (pre @ [n])))"
    using FindNodeByNames_skip [OF pre, of tr "n # post"] by simp
qed

theorem FindNodeByNames_first_match_witness:
  "fst (GetNode (\<lambda>l. ()) example_client [] [] ''a'') = (None, None)
   \<and> fst (GetNode (\<lambda>l. ()) example_client [] [] ''c'') = (None, None)
   \<and> fst (GetNode (\<lambda>l. ()) example_client [] [] ''b'') =
       (Some \<lparr>Node = node_b, log = [(''NodeID'', ''b'')], client = example_client,
               updater = ()\<rparr>, None)
   \<and> FindNodeByNames (\<lambda>l. ()) example_client [] [] [''a'', ''b'', ''c''] =
       ((Some \<lparr>Node = node_b, log = [(''NodeID'', ''b'')], client = example_client,
                updater = ()\<rparr>, None),
        [NodesGet ''a'', NodesGet ''b''])
   \<and> FindNodeByNames (\<lambda>l. ()) example_client [] [] [''a'', ''c''] =
       ((None, None), [NodesGet ''a'', NodesGet ''c''])
   \<and> fst (GetNode (\<lambda>l. ()) example_client [] [] ''boom'') =
       (None, Some (WrapError ''failed to find node by ID boom: Internal Server Error''
                      (ErrOther ''Internal Server Error'')))
   \<and> FindNodeByNames (\<lambda>l. ()) example_client [] [] [''a'', ''boom'', ''b''] =
       ((None,
         Some (WrapError
                 ''failed to find node by name boom: failed to find node by ID boom: Internal Server Error''
                 (WrapError ''failed to find node by ID boom: Internal Server Error''
                    (ErrOther ''Internal Server Error'')))),
        [NodesGet ''a'', NodesGet ''boom''])"
proof -
  let ?get = "GetNode (\<lambda>l. ()) example_client [] []"
  let ?hb = "\<lparr>Node = node_b, log = [(''NodeID'', ''b'')], client = example_client,
               updater = ()\<rparr>"
  let ?e = "WrapError ''failed to find node by ID boom: Internal Server Error''
              (ErrOther ''Internal Server Error'')"
  have a: "fst (?get ''a'') = (None, None)"
    by (simp add: GetNode_def example_client_def)
  have c: "fst (?get ''c'') = (None, None)"
    by (simp add: GetNode_def example_client_def)
  have b: "fst (?get ''b'') = (Some ?hb, None)"
    by (simp add: GetNode_def example_client_def WithValues_def)
  have boom: "fst (?get ''boom'') = (None, Some ?e)"
    by (simp add: GetNode_def example_client_def)
  have pre: "\<forall>m\<in>set [''a'']. fst (?get m) = (None, None)"
    using a by simp
  have names: "\<forall>m\<in>set [''a'', ''c'']. fst (?get m) = (None, None)"
    using a c by simp
  have found: "FindNodeByNames (\<lambda>l. ()) example_client [] [] [''a'', ''b'', ''c''] =
      ((Some ?hb, None), [NodesGet ''a'', NodesGet ''b''])"
    using FindNodeByNames_first_match
            [of "[''a'']" "\<lambda>l. ()" example_client "[]" "''b''" ?hb "[]" "[''c'']"
                "[''a'', ''c'']" None ?e]
          pre b by simp
  have none: "FindNodeByNames (\<lambda>l. ()) example_client [] [] [''a'', ''c''] =
      ((None, None), [NodesGet ''a'', NodesGet ''c''])"
    using FindNodeByNames_first_match
            [of "[''a'']" "\<lambda>l. ()" example_client "[]" "''b''" ?hb "[]" "[''c'']"
                "[''a'', ''c'']" None ?e]
          names by simp
  have failed: "FindNodeByNames (\<lambda>l. ()) example_client [] [] [''a'', ''boom'', ''b''] =
      ((None, Some (WrapError
                 ''failed to find node by name boom: failed to find node by ID boom: Internal Server Error''
                 ?e)),
       [NodesGet ''a'', NodesGet ''boom''])"
    using FindNodeByNames_first_match
            [of "[''a'']" "\<lambda>l. ()" example_client "[]" "''boom''" ?hb "[]" "[''b'']"
                "[''a'', ''c'']" None ?e]
          pre boom by simp
  show ?thesis
    using a c b boom found none failed by simp
qed

text \<open>
  C4. \<open>FindNodeByMAC\<close> first lists the ports with the MAC address as filter, projecting
  the owning node's identifier. An error of the listing, or of decoding it, is returned as
  it is; an empty listing gives nil and nil; otherwise the result is that of \<open>GetNode\<close> on
  the owning node's identifier of the first port. In particular a MAC address registered
  to exactly one port, of a node the remote service knows, gives that node; and an error
  of the node lookup other than a 404 is returned, wrapped by \<open>GetNode\<close>.
\<close>

theorem FindNodeByMAC_two_stage:
  "(ports_List_AllPages clnt
      \<lparr>lo_Fields = [''node_uuid''], lo_Address = mac, lo_NodeUUID = ''''\<rparr> = Inl e \<longrightarrow>
    FindNodeByMAC upd clnt logger tr mac =
      ((None, Some e),
       tr @ [PortsList \<lparr>lo_Fields = [''node_uuid''], lo_Address = mac, lo_NodeUUID = ''''\<rparr>]))
   \<and> (ports_List_AllPages clnt
      \<lparr>lo_Fields = [''node_uuid''], lo_Address = mac, lo_NodeUUID = ''''\<rparr> = Inr (BadPage e) \<longrightarrow>
    FindNodeByMAC upd clnt logger tr mac =
      ((None, Some e),
       tr @ [PortsList \<lparr>lo_Fields = [''node_uuid''], lo_Address = mac, lo_NodeUUID = ''''\<rparr>]))
   \<and> (ports_List_AllPages clnt
      \<lparr>lo_Fields = [''node_uuid''], lo_Address = mac, lo_NodeUUID = ''''\<rparr> = Inr (PortPage []) \<longrightarrow>
    FindNodeByMAC upd clnt logger tr mac =
      ((None, None),
       tr @ [PortsList \<lparr>lo_Fields = [''node_uuid''], lo_Address = mac, lo_NodeUUID = ''''\<rparr>]))
   \<and> (ports_List_AllPages clnt
      \<lparr>lo_Fields = [''node_uuid''], lo_Address = mac, lo_NodeUUID = ''''\<rparr> = Inr (PortPage (p # ps)) \<longrightarrow>
    FindNodeByMAC upd clnt logger tr mac =
      GetNode upd clnt logger
        (tr @ [PortsList \<lparr>lo_Fields = [''node_uuid''], lo_Address = mac, lo_NodeUUID = ''''\<rparr>])
        (port_NodeUUID p))
   \<and> (ports_List_AllPages clnt
      \<lparr>lo_Fields = [''node_uuid''], lo_Address = mac, lo_NodeUUID = ''''\<rparr> = Inr (PortPage [p]) \<longrightarrow>
    port_NodeUUID p \<noteq> [] \<longrightarrow> nodes_Get clnt (port_NodeUUID p) = Inr payload \<longrightarrow>
    FindNodeByMAC upd clnt logger tr mac =
      ((Some \<lparr>Node = payload, log = logger @ [(''NodeID'', port_NodeUUID p)], client = clnt,
              updater = upd logger\<rparr>, None),
       tr @ [PortsList \<lparr>lo_Fields = [''node_uuid''], lo_Address = mac, lo_NodeUUID = ''''\<rparr>,
             NodesGet (port_NodeUUID p)]))
   \<and> (ports_List_AllPages clnt
      \<lparr>lo_Fields = [''node_uuid''], lo_Address = mac, lo_NodeUUID = ''''\<rparr> = Inr (PortPage (p # ps)) \<longrightarrow>
    port_NodeUUID p \<noteq> [] \<longrightarrow> nodes_Get clnt (port_NodeUUID p) = Inl e \<longrightarrow>
    (\<forall>m. e \<noteq> ErrDefault404 m) \<longrightarrow>
    FindNodeByMAC upd clnt logger tr mac =
      ((None,
        Some (WrapError (''failed to find node by ID '' @ port_NodeUUID p @ '': '' @ Error e) e)),
       tr @ [PortsList \<lparr>lo_Fields = [''node_uuid''], lo_Address = mac, lo_NodeUUID = ''''\<rparr>,
             NodesGet (port_NodeUUID p)]))"
  by (cases e) (simp_all add: FindNodeByMAC_def findNodeIDByMAC_def GetNode_def WithValues_def)

theorem FindNodeByMAC_two_stage_witness:
  "ports_List_AllPages example_client
      \<lparr>lo_Fields = [''node_uuid''], lo_Address = ''boom'', lo_NodeUUID = ''''\<rparr> =
      Inl (ErrOther ''Internal Server Error'')
   \<and> FindNodeByMAC (\<lambda>l. ()) example_client [] [] ''boom'' =
       ((None, Some (ErrOther ''Internal Server Error'')),
        [PortsList \<lparr>lo_Fields = [''node_uuid''], lo_Address = ''boom'', lo_NodeUUID = ''''\<rparr>])
   \<and> ports_List_AllPages example_client
      \<lparr>lo_Fields = [''node_uuid''], lo_Address = ''garbled'', lo_NodeUUID = ''''\<rparr> =
      Inr (BadPage (ErrOther ''unexpected end of JSON input''))
   \<and> FindNodeByMAC (\<lambda>l. ()) example_client [] [] ''garbled'' =
       ((None, Some (ErrOther ''unexpected end of JSON input'')),
        [PortsList \<lparr>lo_Fields = [''node_uuid''], lo_Address = ''garbled'', lo_NodeUUID = ''''\<rparr>])
   \<and> ports_List_AllPages example_client
      \<lparr>lo_Fields = [''node_uuid''], lo_Address = ''52:54:00:00:00:0a'', lo_NodeUUID = ''''\<rparr> =
      Inr (PortPage [])
   \<and> FindNodeByMAC (\<lambda>l. ()) example_client [] [] ''52:54:00:00:00:0a'' =
       ((None, None),
        [PortsList \<lparr>lo_Fields = [''node_uuid''], lo_Address = ''52:54:00:00:00:0a'',
                     lo_NodeUUID = ''''\<rparr>])
   \<and> ports_List_AllPages example_client
      \<lparr>lo_Fields = [''node_uuid''], lo_Address = ''52:54:00:00:00:0b'', lo_NodeUUID = ''''\<rparr> =
      Inr (PortPage [\<lparr>port_NodeUUID = ''uuid-b'', port_Address = ''52:54:00:00:00:0b'',
                       port_PXEEnabled = True\<rparr>])
   \<and> nodes_Get example_client ''uuid-b'' = Inr node_b
   \<and> FindNodeByMAC (\<lambda>l. ()) example_client [] [] ''52:54:00:00:00:0b'' =
       GetNode (\<lambda>l. ()) example_client []
         [PortsList \<lparr>lo_Fields = [''node_uuid''], lo_Address = ''52:54:00:00:00:0b'',
                      lo_NodeUUID = ''''\<rparr>] ''uuid-b''
   \<and> FindNodeByMAC (\<lambda>l. ()) example_client [] [] ''52:54:00:00:00:0b'' =
       ((Some \<lparr>Node = node_b, log = [(''NodeID'', ''uuid-b'')], client = example_client,
                updater = ()\<rparr>, None),
        [PortsList \<lparr>lo_Fields = [''node_uuid''], lo_Address = ''52:54:00:00:00:0b'',
                     lo_NodeUUID = ''''\<rparr>,
         NodesGet ''uuid-b''])
   \<and> ports_List_AllPages example_client
      \<lparr>lo_Fields = [''node_uuid''], lo_Address = ''52:54:00:00:00:0f'', lo_NodeUUID = ''''\<rparr> =
      Inr (PortPage [\<lparr>port_NodeUUID = ''boom'', port_Address = ''52:54:00:00:00:0f'',
                       port_PXEEnabled = True\<rparr>])
   \<and> nodes_Get example_client ''boom'' = Inl (ErrOther ''Internal Server Error'')
   \<and> (\<forall>m. ErrOther ''Internal Server Error'' \<noteq> ErrDefault404 m)
   \<and> FindNodeByMAC (\<lambda>l. ()) example_client [] [] ''52:54:00:00:00:0f'' =
       ((None,
         Some (WrapError ''failed to find node by ID boom: Internal Server Error''
                 (ErrOther ''Internal Server Error''))),
        [PortsList \<lparr>lo_Fields = [''node_uuid''], lo_Address = ''52:54:00:00:00:0f'',
                     lo_NodeUUID = ''''\<rparr>,
         NodesGet ''boom''])"
proof -
  let ?pb = "\<lparr>port_NodeUUID = ''uuid-b'', port_Address = ''52:54:00:00:00:0b'',
               port_PXEEnabled = True\<rparr>"
  have boom: "ports_List_AllPages example_client
      \<lparr>lo_Fields = [''node_uuid''], lo_Address = ''boom'', lo_NodeUUID = ''''\<rparr> =
      Inl (ErrOther ''Internal Server Error'')"
    by (simp add: example_client_def)
  have garbled: "ports_List_AllPages example_client
      \<lparr>lo_Fields = [''node_uuid''], lo_Address = ''garbled'', lo_NodeUUID = ''''\<rparr> =
      Inr (BadPage (ErrOther ''unexpected end of JSON input''))"
    by (simp add: example_client_def)
  have unknown: "ports_List_AllPages example_client
      \<lparr>lo_Fields = [''node_uuid''], lo_Address = ''52:54:00:00:00:0a'', lo_NodeUUID = ''''\<rparr> =
      Inr (PortPage [])"
    by (simp add: example_client_def)
  have known: "ports_List_AllPages example_client
      \<lparr>lo_Fields = [''node_uuid''], lo_Address = ''52:54:00:00:00:0b'', lo_NodeUUID = ''''\<rparr> =
      Inr (PortPage [?pb])"
    by (simp add: example_client_def)
  have node: "nodes_Get example_client ''uuid-b'' = Inr node_b"
    by (simp add: example_client_def)
  have r1: "FindNodeByMAC (\<lambda>l. ()) example_client [] [] ''boom'' =
       ((None, Some (ErrOther ''Internal Server Error'')),
        [PortsList \<lparr>lo_Fields = [''node_uuid''], lo_Address = ''boom'', lo_NodeUUID = ''''\<rparr>])"
    using FindNodeByMAC_two_stage
            [of example_client "''boom''" "ErrOther ''Internal Server Error''" "\<lambda>l. ()"
                "[]" "[]" ?pb "[]" node_b] boom
    by simp
  have r2: "FindNodeByMAC (\<lambda>l. ()) example_client [] [] ''garbled'' =
       ((None, Some (ErrOther ''unexpected end of JSON input'')),
        [PortsList \<lparr>lo_Fields = [''node_uuid''], lo_Address = ''garbled'', lo_NodeUUID = ''''\<rparr>])"
    using FindNodeByMAC_two_stage
            [of example_client "''garbled''" "ErrOther ''unexpected end of JSON input''"
                "\<lambda>l. ()" "[]" "[]" ?pb "[]" node_b] garbled
    by simp
  have r3: "FindNodeByMAC (\<lambda>l. ()) example_client [] [] ''52:54:00:00:00:0a'' =
       ((None, None),
        [PortsList \<lparr>lo_Fields = [''node_uuid''], lo_Address = ''52:54:00:00:00:0a'',
                     lo_NodeUUID = ''''\<rparr>])"
    using FindNodeByMAC_two_stage
            [of example_client "''52:54:00:00:00:0a''" "ErrOther ''Internal Server Error''"
                "\<lambda>l. ()" "[]" "[]" ?pb "[]" node_b] unknown
    by simp
  note known_mac =
    FindNodeByMAC_two_stage
      [of example_client "''52:54:00:00:00:0b''" "ErrOther ''Internal Server Error''"
          "\<lambda>l. ()" "[]" "[]" ?pb "[]" node_b]
  have r4: "FindNodeByMAC (\<lambda>l. ()) example_client [] [] ''52:54:00:00:00:0b'' =
       GetNode (\<lambda>l. ()) example_client []
         [PortsList \<lparr>lo_Fields = [''node_uuid''], lo_Address = ''52:54:00:00:00:0b'',
                      lo_NodeUUID = ''''\<rparr>] ''uuid-b''"
    using known_mac [THEN conjunct2, THEN conjunct2, THEN conjunct2, THEN conjunct1] known
    by simp
  have r5: "FindNodeByMAC (\<lambda>l. ()) example_client [] [] ''52:54:00:00:00:0b'' =
       ((Some \<lparr>Node = node_b, log = [(''NodeID'', ''uuid-b'')], client = example_client,
                updater = ()\<rparr>, None),
        [PortsList \<lparr>lo_Fields = [''node_uuid''], lo_Address = ''52:54:00:00:00:0b'',
                     lo_NodeUUID = ''''\<rparr>,
         NodesGet ''uuid-b''])"
    using known_mac [THEN conjunct2, THEN conjunct2, THEN conjunct2, THEN conjunct2,
                     THEN conjunct1] known node
    by simp
  let ?pf = "\<lparr>port_NodeUUID = ''boom'', port_Address = ''52:54:00:00:00:0f'',
               port_PXEEnabled = True\<rparr>"
  have failing: "ports_List_AllPages example_client
      \<lparr>lo_Fields = [''node_uuid''], lo_Address = ''52:54:00:00:00:0f'', lo_NodeUUID = ''''\<rparr> =
      Inr (PortPage [?pf])"
    by (simp add: example_client_def)
  have down: "nodes_Get example_client ''boom'' = Inl (ErrOther ''Internal Server Error'')"
    by (simp add: example_client_def)
  have r6: "FindNodeByMAC (\<lambda>l. ()) example_client [] [] ''52:54:00:00:00:0f'' =
       ((None,
         Some (WrapError ''failed to find node by ID boom: Internal Server Error''
                 (ErrOther ''Internal Server Error''))),
        [PortsList \<lparr>lo_Fields = [''node_uuid''], lo_Address = ''52:54:00:00:00:0f'',
                     lo_NodeUUID = ''''\<rparr>,
         NodesGet ''boom''])"
    using FindNodeByMAC_two_stage
            [of example_client "''52:54:00:00:00:0f''" "ErrOther ''Internal Server Error''"
                "\<lambda>l. ()" "[]" "[]" ?pf "[]" node_b,
             THEN conjunct2, THEN conjunct2, THEN conjunct2, THEN conjunct2, THEN conjunct2]
          failing down
    by simp
  show ?thesis
    using boom garbled unknown known node failing down r1 r2 r3 r4 r5 r6 by simp
qed

text \<open>
  C9. When the listing gives a port and the lookup of its owning node is answered with a
  404 error, \<open>FindNodeByMAC\<close> returns nil and nil, as it does for a MAC address that is
  not registered.
\<close>

theorem FindNodeByMAC_stale_port:
  "ports_List_AllPages clnt
      \<lparr>lo_Fields = [''node_uuid''], lo_Address = mac, lo_NodeUUID = ''''\<rparr> = Inr (PortPage (p # ps)) \<Longrightarrow>
   nodes_Get clnt (port_NodeUUID p) = Inl (ErrDefault404 m) \<Longrightarrow>
   fst (FindNodeByMAC upd clnt logger tr mac) = (None, None)"
  by (simp add: FindNodeByMAC_def findNodeIDByMAC_def GetNode_def)

theorem FindNodeByMAC_stale_port_witness:
  "ports_List_AllPages example_client
      \<lparr>lo_Fields = [''node_uuid''], lo_Address = ''52:54:00:00:00:0d'', lo_NodeUUID = ''''\<rparr> =
      Inr (PortPage [\<lparr>port_NodeUUID = ''uuid-d'', port_Address = ''52:54:00:00:00:0d'',
                       port_PXEEnabled = True\<rparr>])
   \<and> nodes_Get example_client ''uuid-d'' = Inl (ErrDefault404 ''Resource not found'')
   \<and> fst (FindNodeByMAC (\<lambda>l. ()) example_client [] [] ''52:54:00:00:00:0d'') = (None, None)"
proof -
  let ?pd = "\<lparr>port_NodeUUID = ''uuid-d'', port_Address = ''52:54:00:00:00:0d'',
               port_PXEEnabled = True\<rparr>"
  have stale: "ports_List_AllPages example_client
      \<lparr>lo_Fields = [''node_uuid''], lo_Address = ''52:54:00:00:00:0d'', lo_NodeUUID = ''''\<rparr> =
      Inr (PortPage (?pd # []))"
    by (simp add: example_client_def)
  have gone: "nodes_Get example_client (port_NodeUUID ?pd) =
      Inl (ErrDefault404 ''Resource not found'')"
    by (simp add: example_client_def)
  show ?thesis
    using FindNodeByMAC_stale_port [OF stale gone, of "\<lambda>l. ()" "[]" "[]"] stale gone
    by simp
qed

section \<open>Properties of the validation and port operations\<close>

text \<open>
  C5. When the remote validation call gives a response, \<open>Validate\<close> returns a nil error
  and, as data, the reason of Boot if Boot failed followed by the reason of Deploy if
  Deploy failed. It is then instantiated at the response in which Boot fails with
  "no image" and Deploy passes: the result is exactly that one reason.
\<close>

theorem Validate_failures_as_data:
  "nodes_Validate (client node) (UUID (Node node)) = Inr validateResult \<Longrightarrow>
   Validate node tr =
     (((if Result (Boot validateResult) then [] else [Reason (Boot validateResult)]) @
       (if Result (Deploy validateResult) then [] else [Reason (Deploy validateResult)]), None),
      tr @ [NodesValidate (UUID (Node node))])"
  by (simp add: Validate_def)

theorem Validate_failures_as_data_witness:
  "nodes_Validate (client (example_node ''uuid-b'')) (UUID (Node (example_node ''uuid-b''))) =
     Inr \<lparr>Boot = \<lparr>Result = False, Reason = ''no image''\<rparr>,
          Deploy = \<lparr>Result = True, Reason = ''''\<rparr>\<rparr>
   \<and> Validate (example_node ''uuid-b'') [] = (([''no image''], None), [NodesValidate ''uuid-b''])"
proof -
  have h: "nodes_Validate (client (example_node ''uuid-b''))
             (UUID (Node (example_node ''uuid-b''))) =
           Inr \<lparr>Boot = \<lparr>Result = False, Reason = ''no image''\<rparr>,
                Deploy = \<lparr>Result = True, Reason = ''''\<rparr>\<rparr>"
    by (simp add: example_node_def example_client_def)
  show ?thesis
    using Validate_failures_as_data [OF h, of "[]"] h
    by (simp add: example_node_def)
qed

text \<open>
  C6. When the remote validation call itself fails, \<open>Validate\<close> returns the error of the
  call as it is, not wrapped.
\<close>

theorem Validate_call_error_unwrapped:
  "nodes_Validate (client node) (UUID (Node node)) = Inl e \<Longrightarrow>
   Validate node tr = (([], Some e), tr @ [NodesValidate (UUID (Node node))])"
  by (simp add: Validate_def)

theorem Validate_call_error_unwrapped_witness:
  "nodes_Validate (client (example_node ''uuid-x'')) (UUID (Node (example_node ''uuid-x''))) =
     Inl (ErrOther ''Service Unavailable'')
   \<and> Validate (example_node ''uuid-x'') [] =
       (([], Some (ErrOther ''Service Unavailable'')), [NodesValidate ''uuid-x''])"
proof -
  have h: "nodes_Validate (client (example_node ''uuid-x''))
             (UUID (Node (example_node ''uuid-x''))) = Inl (ErrOther ''Service Unavailable'')"
    by (simp add: example_node_def example_client_def)
  show ?thesis
    using Validate_call_error_unwrapped [OF h, of "[]"] h
    by (simp add: example_node_def)
qed

text \<open>
  C10. Whenever \<open>Validate\<close> returns a non-nil error, the list of failures it returns is
  empty.
\<close>

theorem Validate_error_no_failures:
  "fst (Validate node tr) = (failures, Some e) \<Longrightarrow> failures = []"
  by (auto simp add: Validate_def Let_def split: sum.splits if_splits)

theorem Validate_error_no_failures_witness:
  "fst (Validate (example_node ''uuid-x'') []) = ([], Some (ErrOther ''Service Unavailable''))
   \<and> ([] :: string list) = []"
proof -
  have h: "fst (Validate (example_node ''uuid-x'') []) =
           ([], Some (ErrOther ''Service Unavailable''))"
    by (simp add: Validate_def example_node_def example_client_def)
  show ?thesis
    using Validate_error_no_failures [OF h] h by simp
qed

text \<open>
  C7. \<open>HasPorts\<close> lists the ports with the node's identifier as filter. When the listing
  holds the ports \<open>ps\<close>, it returns whether \<open>ps\<close> is non-empty, with a nil error: false
  for no port, true for one or more. An error of paging and an error of the emptiness
  check are each returned wrapped, with false.
\<close>

theorem HasPorts_result:
  "(ports_List_AllPages (client node)
      \<lparr>lo_Fields = [''node_uuid''], lo_Address = '''', lo_NodeUUID = UUID (Node node)\<rparr> =
      Inr (PortPage ps) \<longrightarrow>
    HasPorts node tr =
      ((ps \<noteq> [], None),
       tr @ [PortsList \<lparr>lo_Fields = [''node_uuid''], lo_Address = '''',
                        lo_NodeUUID = UUID (Node node)\<rparr>]))
   \<and> (ports_List_AllPages (client node)
      \<lparr>lo_Fields = [''node_uuid''], lo_Address = '''', lo_NodeUUID = UUID (Node node)\<rparr> =
      Inl e \<longrightarrow>
    HasPorts node tr =
      ((False, Some (WrapError (''failed to page over list of ports: '' @ Error e) e)),
       tr @ [PortsList \<lparr>lo_Fields = [''node_uuid''], lo_Address = '''',
                        lo_NodeUUID = UUID (Node node)\<rparr>]))
   \<and> (ports_List_AllPages (client node)
      \<lparr>lo_Fields = [''node_uuid''], lo_Address = '''', lo_NodeUUID = UUID (Node node)\<rparr> =
      Inr pg \<longrightarrow> IsEmpty pg = Inl e \<longrightarrow>
    HasPorts node tr =
      ((False, Some (WrapError (''failed to check port list status: '' @ Error e) e)),
       tr @ [PortsList \<lparr>lo_Fields = [''node_uuid''], lo_Address = '''',
                        lo_NodeUUID = UUID (Node node)\<rparr>]))"
  by (simp add: HasPorts_def Let_def)

theorem HasPorts_result_witness:
  "ports_List_AllPages (client (example_node ''uuid-x''))
      \<lparr>lo_Fields = [''node_uuid''], lo_Address = '''',
         lo_NodeUUID = UUID (Node (example_node ''uuid-x''))\<rparr> = Inr (PortPage [])
   \<and> HasPorts (example_node ''uuid-x'') [] =
       ((False, None),
        [PortsList \<lparr>lo_Fields = [''node_uuid''], lo_Address = '''', lo_NodeUUID = ''uuid-x''\<rparr>])
   \<and> ports_List_AllPages (client (example_node ''uuid-b''))
      \<lparr>lo_Fields = [''node_uuid''], lo_Address = '''',
         lo_NodeUUID = UUID (Node (example_node ''uuid-b''))\<rparr> =
      Inr (PortPage [\<lparr>port_NodeUUID = ''uuid-b'', port_Address = ''52:54:00:00:00:0b'',
                       port_PXEEnabled = True\<rparr>])
   \<and> HasPorts (example_node ''uuid-b'') [] =
       ((True, None),
        [PortsList \<lparr>lo_Fields = [''node_uuid''], lo_Address = '''', lo_NodeUUID = ''uuid-b''\<rparr>])
   \<and> ports_List_AllPages (client (example_node ''boom''))
      \<lparr>lo_Fields = [''node_uuid''], lo_Address = '''',
         lo_NodeUUID = UUID (Node (example_node ''boom''))\<rparr> =
      Inl (ErrOther ''Internal Server Error'')
   \<and> HasPorts (example_node ''boom'') [] =
       ((False,
         Some (WrapError ''failed to page over list of ports: Internal Server Error''
                 (ErrOther ''Internal Server Error''))),
        [PortsList \<lparr>lo_Fields = [''node_uuid''], lo_Address = '''', lo_NodeUUID = ''boom''\<rparr>])
   \<and> ports_List_AllPages (client (example_node ''garbled''))
      \<lparr>lo_Fields = [''node_uuid''], lo_Address = '''',
         lo_NodeUUID = UUID (Node (example_node ''garbled''))\<rparr> =
      Inr (BadPage (ErrOther ''unexpected end of JSON input''))
   \<and> IsEmpty (BadPage (ErrOther ''unexpected end of JSON input'')) =
       Inl (ErrOther ''unexpected end of JSON input'')
   \<and> HasPorts (example_node ''garbled'') [] =
       ((False,
         Some (WrapError ''failed to check port list status: unexpected end of JSON input''
                 (ErrOther ''unexpected end of JSON input''))),
        [PortsList \<lparr>lo_Fields = [''node_uuid''], lo_Address = '''', lo_NodeUUID = ''garbled''\<rparr>])"
proof -
  let ?pb = "\<lparr>port_NodeUUID = ''uuid-b'', port_Address = ''52:54:00:00:00:0b'',
               port_PXEEnabled = True\<rparr>"
  have none: "ports_List_AllPages (client (example_node ''uuid-x''))
      \<lparr>lo_Fields = [''node_uuid''], lo_Address = '''',
         lo_NodeUUID = UUID (Node (example_node ''uuid-x''))\<rparr> = Inr (PortPage [])"
    by (simp add: example_node_def example_client_def)
  have one: "ports_List_AllPages (client (example_node ''uuid-b''))
      \<lparr>lo_Fields = [''node_uuid''], lo_Address = '''',
         lo_NodeUUID = UUID (Node (example_node ''uuid-b''))\<rparr> = Inr (PortPage [?pb])"
    by (simp add: example_node_def example_client_def)
  have boom: "ports_List_AllPages (client (example_node ''boom''))
      \<lparr>lo_Fields = [''node_uuid''], lo_Address = '''',
         lo_NodeUUID = UUID (Node (example_node ''boom''))\<rparr> =
      Inl (ErrOther ''Internal Server Error'')"
    by (simp add: example_node_def example_client_def)
  have garbled: "ports_List_AllPages (client (example_node ''garbled''))
      \<lparr>lo_Fields = [''node_uuid''], lo_Address = '''',
         lo_NodeUUID = UUID (Node (example_node ''garbled''))\<rparr> =
      Inr (BadPage (ErrOther ''unexpected end of JSON input''))"
    by (simp add: example_node_def example_client_def)
  have r1: "HasPorts (example_node ''uuid-x'') [] =
       ((False, None),
        [PortsList \<lparr>lo_Fields = [''node_uuid''], lo_Address = '''', lo_NodeUUID = ''uuid-x''\<rparr>])"
    using HasPorts_result [of "example_node ''uuid-x''" "[]" "[]"
                              "ErrOther ''Internal Server Error''" "PortPage []"] none
    by (simp add: example_node_def)
  have r2: "HasPorts (example_node ''uuid-b'') [] =
       ((True, None),
        [PortsList \<lparr>lo_Fields = [''node_uuid''], lo_Address = '''', lo_NodeUUID = ''uuid-b''\<rparr>])"
    using HasPorts_result [of "example_node ''uuid-b''" "[?pb]" "[]"
                              "ErrOther ''Internal Server Error''" "PortPage []"] one
    by (simp add: example_node_def)
  have r3: "HasPorts (example_node ''boom'') [] =
       ((False,
         Some (WrapError ''failed to page over list of ports: Internal Server Error''
                 (ErrOther ''Internal Server Error''))),
        [PortsList \<lparr>lo_Fields = [''node_uuid''], lo_Address = '''', lo_NodeUUID = ''boom''\<rparr>])"
    using HasPorts_result [of "example_node ''boom''" "[]" "[]"
                              "ErrOther ''Internal Server Error''" "PortPage []"] boom
    by (simp add: example_node_def)
  have r4: "HasPorts (example_node ''garbled'') [] =
       ((False,
         Some (WrapError ''failed to check port list status: unexpected end of JSON input''
                 (ErrOther ''unexpected end of JSON input''))),
        [PortsList \<lparr>lo_Fields = [''node_uuid''], lo_Address = '''', lo_NodeUUID = ''garbled''\<rparr>])"
    using HasPorts_result [of "example_node ''garbled''" "[]" "[]"
                              "ErrOther ''unexpected end of JSON input''"
                              "BadPage (ErrOther ''unexpected end of JSON input'')"] garbled
    by (simp add: example_node_def)
  show ?thesis
    using none one boom garbled r1 r2 r3 r4 by simp
qed

section \<open>Properties of the admission hooks\<close>

text \<open>
  C8. For every subscription and every old object the update hook returns a non-nil
  error, the fixed message that tells the caller to recreate the subscription; the delete
  hook returns nil.
\<close>

theorem ValidateUpdate_rejects_ValidateDelete_allows:
  "ValidateUpdate s old \<noteq> None
   \<and> ValidateUpdate s old =
       Some (ErrorString ''subscriptions cannot be updated, please recreate it'')
   \<and> ValidateDelete s = None"
  by (simp add: ValidateUpdate_def ValidateDelete_def)

end
